theory Spec2Isabelle
  imports Complex_Main
begin

section \<open>Values exchanged with clients\<close>

text \<open>
  A JavaScript number is a double. A finite one is written as the rational it stands for
  (the two zeros are one value here: the server tells them apart nowhere, in truthiness,
  in printing or in \<^verbatim>\<open>JSON.stringify\<close>); the others are the two infinities and \<^verbatim>\<open>NaN\<close>.
\<close>

datatype jsnum = Fin rat | PInf | NInf | NaN

text \<open>
  \<^verbatim>\<open>src/backend/server.js\<close> decodes every inbound frame with \<^verbatim>\<open>JSON.parse\<close> and encodes
  every outbound message with \<^verbatim>\<open>JSON.stringify\<close>. A decoded value is one of the six JSON
  kinds. A decoded number is a finite double, or an infinity when the literal overflows
  (\<^verbatim>\<open>1e999\<close>), never \<^verbatim>\<open>NaN\<close>. An object is the list of its own properties, a key occurring
  once, as \<^verbatim>\<open>JSON.parse\<close> produces it.
\<close>

datatype json =
    JNull
  | JBool bool
  | JNum jsnum
  | JStr string
  | JArr "json list"
  | JObj "(string \<times> json) list"

text \<open>An integer as a JSON number: a clock reading, a count.\<close>

abbreviation JInt :: "int \<Rightarrow> json" where
  "JInt n \<equiv> JNum (Fin (of_int n))"

text \<open>
  What the language does with numbers and is not written out here: the reading of a
  string as a number (the grammar of numeric literals), the printing of a number
  (\<^verbatim>\<open>Number::toString\<close>, shortest digits that read back, exponent form from \<open>10\<^sup>2\<^sup>1\<close>),
  and the rounding of an exact result to the nearest double, ties to even. The three are
  parameters of the model. The cases in which their answer is plain are decided by the
  definitions below, which call on a parameter only for the rest.
\<close>

record platform =
  StringToNumber :: "string \<Rightarrow> jsnum"
  NumberToString :: "rat \<Rightarrow> string"
  roundTiesToEven :: "rat \<Rightarrow> jsnum"

text \<open>A platform for examples that reach none of the three conversions.\<close>

abbreviation unused_platform :: platform where
  "unused_platform \<equiv>
     \<lparr>StringToNumber = \<lambda>s. NaN, NumberToString = \<lambda>q. [], roundTiesToEven = \<lambda>q. NaN\<rparr>"

text \<open>
  An integer of magnitude at most \<open>2\<^sup>5\<^sup>3\<close> (9007199254740992): every such number is a
  double, and JavaScript prints it with all its decimal digits.
\<close>

definition exact_int :: "rat \<Rightarrow> bool" where
  "exact_int q = (of_int \<lfloor>q\<rfloor> = q \<and> \<bar>q\<bar> \<le> 9007199254740992)"

text \<open>
  Property read \<^verbatim>\<open>data.k\<close> on a decoded value other than \<^verbatim>\<open>null\<close>, for the keys the
  server reads (\<^verbatim>\<open>type\<close>, \<^verbatim>\<open>language\<close>, \<^verbatim>\<open>timestamp\<close>): an object answers with its own
  property, and no prototype of an object, array, string, number or boolean has such a
  member, so everything else answers \<^verbatim>\<open>undefined\<close> (\<open>None\<close>). Reading a property of
  \<^verbatim>\<open>null\<close> raises a TypeError; the callers test for \<open>JNull\<close> first.
\<close>

fun get_prop :: "json \<Rightarrow> string \<Rightarrow> json option" where
  "get_prop (JObj fs) k = map_of fs k"
| "get_prop _ k = None"

text \<open>Truthiness, as \<^verbatim>\<open>||\<close> tests it.\<close>

fun truthy :: "json option \<Rightarrow> bool" where
  "truthy None = False"
| "truthy (Some JNull) = False"
| "truthy (Some (JBool b)) = b"
| "truthy (Some (JNum x)) = (x \<noteq> Fin 0 \<and> x \<noteq> NaN)"
| "truthy (Some (JStr s)) = (s \<noteq> [])"
| "truthy (Some (JArr xs)) = True"
| "truthy (Some (JObj fs)) = True"

text \<open>
  The decimal digits of an integer. This is how JavaScript names an array index and how it
  prints an integer of magnitude at most \<open>2\<^sup>5\<^sup>3\<close>; it is used for nothing else.
\<close>

definition digit_char :: "nat \<Rightarrow> char" where
  "digit_char d = char_of (48 + d)"

function nat_to_string :: "nat \<Rightarrow> string" where
  "nat_to_string n =
     (if n < 10 then [digit_char n] else nat_to_string (n div 10) @ [digit_char (n mod 10)])"
  by pat_completeness auto
termination
  by (relation "measure id") auto

definition int_to_string :: "int \<Rightarrow> string" where
  "int_to_string i = (if i < 0 then CHR ''-'' # nat_to_string (nat (- i)) else nat_to_string (nat i))"

text \<open>
  The printing of a number: the decimal digits for an integer of magnitude at most
  \<open>2\<^sup>5\<^sup>3\<close>, the fixed names of the infinities and of \<^verbatim>\<open>NaN\<close>, and the platform's
  \<^verbatim>\<open>Number::toString\<close> for every other finite number.
\<close>

fun number_to_string :: "platform \<Rightarrow> jsnum \<Rightarrow> string" where
  "number_to_string pf (Fin q) = (if exact_int q then int_to_string \<lfloor>q\<rfloor> else NumberToString pf q)"
| "number_to_string pf PInf = ''Infinity''"
| "number_to_string pf NInf = ''-Infinity''"
| "number_to_string pf NaN = ''NaN''"

text \<open>
  The string conversion of a decoded value (\<^verbatim>\<open>ToString\<close>), which a template literal
  applies. \<open>None\<close> is the TypeError ``Cannot convert object to primitive value''. An
  object converts through its \<^verbatim>\<open>toString\<close> member: the inherited one answers
  \<^verbatim>\<open>[object Object]\<close>, but an own property of that name, which in decoded JSON is never a
  function, hides it, and the fallback \<^verbatim>\<open>valueOf\<close> does not yield a primitive either.
  An array joins the conversions of its elements with commas, \<^verbatim>\<open>null\<close> elements giving the
  empty string.
\<close>

fun to_string :: "platform \<Rightarrow> json \<Rightarrow> string option"
  and join_elems :: "platform \<Rightarrow> json list \<Rightarrow> string option" where
  "to_string pf JNull = Some ''null''"
| "to_string pf (JBool b) = Some (if b then ''true'' else ''false'')"
| "to_string pf (JNum x) = Some (number_to_string pf x)"
| "to_string pf (JStr s) = Some s"
| "to_string pf (JArr xs) = join_elems pf xs"
| "to_string pf (JObj fs) =
     (if map_of fs ''toString'' = None then Some ''[object Object]'' else None)"
| "join_elems pf [] = Some []"
| "join_elems pf (x # xs) =
     (case (if x = JNull then Some [] else to_string pf x) of
        None \<Rightarrow> None
      | Some a \<Rightarrow>
          (if xs = [] then Some a
           else (case join_elems pf xs of None \<Rightarrow> None | Some b \<Rightarrow> Some (a @ '','' @ b))))"

definition js_string :: "platform \<Rightarrow> json option \<Rightarrow> string option" where
  "js_string pf v = (case v of None \<Rightarrow> Some ''undefined'' | Some x \<Rightarrow> to_string pf x)"

text \<open>
  The numeric conversion (\<^verbatim>\<open>ToNumber\<close>) that \<^verbatim>\<open>-\<close> applies to its operand; \<open>None\<close> is
  again the TypeError. A number converts to itself. A string is read by the platform. An
  array converts through its string form; an object through \<^verbatim>\<open>valueOf\<close>, which never
  yields a primitive, and then \<^verbatim>\<open>toString\<close>, whose inherited answer \<^verbatim>\<open>[object Object]\<close> is
  not a number.
\<close>

fun to_number :: "platform \<Rightarrow> json option \<Rightarrow> jsnum option" where
  "to_number pf None = Some NaN"
| "to_number pf (Some JNull) = Some (Fin 0)"
| "to_number pf (Some (JBool b)) = Some (Fin (if b then 1 else 0))"
| "to_number pf (Some (JNum x)) = Some x"
| "to_number pf (Some (JStr s)) = Some (StringToNumber pf s)"
| "to_number pf (Some (JArr xs)) =
     (case to_string pf (JArr xs) of None \<Rightarrow> None | Some s \<Rightarrow> Some (StringToNumber pf s))"
| "to_number pf (Some (JObj fs)) =
     (if map_of fs ''toString'' = None then Some NaN else None)"

text \<open>
  The subtraction of two doubles is their exact difference, rounded to the nearest double.
  A difference that is an integer of magnitude at most \<open>2\<^sup>5\<^sup>3\<close> is a double, so nothing
  is rounded; every other difference goes through the platform's rounding. An infinity
  absorbs a finite operand, two infinities of the same sign give \<^verbatim>\<open>NaN\<close>, and \<^verbatim>\<open>NaN\<close>
  gives \<^verbatim>\<open>NaN\<close>.
\<close>

fun js_minus :: "platform \<Rightarrow> jsnum \<Rightarrow> jsnum \<Rightarrow> jsnum" where
  "js_minus pf (Fin a) (Fin b) = (if exact_int (a - b) then Fin (a - b) else roundTiesToEven pf (a - b))"
| "js_minus pf (Fin a) PInf = NInf"
| "js_minus pf (Fin a) NInf = PInf"
| "js_minus pf PInf (Fin b) = PInf"
| "js_minus pf PInf NInf = PInf"
| "js_minus pf NInf (Fin b) = NInf"
| "js_minus pf NInf PInf = NInf"
| "js_minus pf _ _ = NaN"

text \<open>\<^verbatim>\<open>JSON.stringify\<close> writes a number that is not finite as \<^verbatim>\<open>null\<close>.\<close>

fun num_json :: "jsnum \<Rightarrow> json" where
  "num_json (Fin q) = JNum (Fin q)"
| "num_json _ = JNull"

text \<open>
  Object literals: \<open>obj_set\<close> defines one property (a later definition of the same key
  replaces the value and keeps the key's place), and \<open>spread\<close> lists the own enumerable
  properties that \<^verbatim>\<open>{...v}\<close> copies: those of an object, the indexed elements of an array,
  the indexed characters of a string, none of a number, boolean or \<^verbatim>\<open>null\<close>.
\<close>

fun obj_set :: "string \<Rightarrow> json \<Rightarrow> (string \<times> json) list \<Rightarrow> (string \<times> json) list" where
  "obj_set k v [] = [(k, v)]"
| "obj_set k v ((k', v') # fs) = (if k' = k then (k, v) # fs else (k', v') # obj_set k v fs)"

fun indexed :: "nat \<Rightarrow> json list \<Rightarrow> (string \<times> json) list" where
  "indexed i [] = []"
| "indexed i (x # xs) = (nat_to_string i, x) # indexed (Suc i) xs"

fun spread :: "json \<Rightarrow> (string \<times> json) list" where
  "spread (JObj fs) = fs"
| "spread (JArr xs) = indexed 0 xs"
| "spread (JStr s) = indexed 0 (map (\<lambda>c. JStr [c]) s)"
| "spread _ = []"

section \<open>The session store\<close>

type_synonym sid = string

text \<open>A channel handle: the \<^verbatim>\<open>ws\<close> object of one accepted connection.\<close>

type_synonym socket = nat

record session =
  ws :: socket
  startTime :: int
  language :: json
  isActive :: bool

text \<open>
  \<^verbatim>\<open>activeSessions\<close> is a JavaScript \<^verbatim>\<open>Map\<close>: it iterates in insertion order, \<^verbatim>\<open>set\<close> on a
  key that is present replaces the value in place, \<^verbatim>\<open>delete\<close> on an absent key does nothing.
\<close>

type_synonym store = "(sid \<times> session) list"

definition Map_get :: "store \<Rightarrow> sid \<Rightarrow> session option" where
  "Map_get st k = map_of st k"

fun Map_set :: "store \<Rightarrow> sid \<Rightarrow> session \<Rightarrow> store" where
  "Map_set [] k v = [(k, v)]"
| "Map_set ((k', v') # st) k v = (if k' = k then (k, v) # st else (k', v') # Map_set st k v)"

fun Map_delete :: "store \<Rightarrow> sid \<Rightarrow> store" where
  "Map_delete [] k = []"
| "Map_delete ((k', v') # st) k = (if k' = k then Map_delete st k else (k', v') # Map_delete st k)"

definition Map_size :: "store \<Rightarrow> nat" where
  "Map_size st = length st"

section \<open>Effects\<close>

text \<open>
  What a handler does to the outside: it attempts to send a message on a channel
  (\<^verbatim>\<open>ws.send(JSON.stringify(m))\<close>) or closes a channel (\<^verbatim>\<open>ws.close()\<close>). Whether a send
  raises is the transport's business; the predicate \<open>throws\<close> says on which channels it
  does while the handler runs. A line written to the console is an effect too; the error
  object that some lines print is left out.
\<close>

datatype logline =
    NewSession sid
  | ParseError
  | Disconnected sid
  | SocketError sid
  | BroadcastError sid
  | CloseError sid

datatype effect = Send socket json | CloseChan socket | Log logline


section \<open>Outbound messages\<close>

definition session_init_msg :: "sid \<Rightarrow> int \<Rightarrow> json" where
  "session_init_msg sessionId t =
     JObj [(''type'', JStr ''session_init''), (''sessionId'', JStr sessionId), (''timestamp'', JInt t)]"

definition invalid_format_msg :: json where
  "invalid_format_msg =
     JObj [(''type'', JStr ''error''), (''message'', JStr ''Invalid message format'')]"

definition listening_started_msg :: "int \<Rightarrow> json \<Rightarrow> json" where
  "listening_started_msg t lang =
     JObj [(''type'', JStr ''listening_started''), (''timestamp'', JInt t), (''language'', lang)]"

definition listening_stopped_msg :: "int \<Rightarrow> json" where
  "listening_stopped_msg t = JObj [(''type'', JStr ''listening_stopped''), (''timestamp'', JInt t)]"

definition pong_msg :: "int \<Rightarrow> jsnum \<Rightarrow> json" where
  "pong_msg t lat = JObj [(''type'', JStr ''pong''), (''timestamp'', JInt t), (''latency'', num_json lat)]"

definition unknown_type_msg :: "string \<Rightarrow> json" where
  "unknown_type_msg txt =
     JObj [(''type'', JStr ''error''), (''message'', JStr (''Unknown message type: '' @ txt))]"

definition server_shutdown_msg :: json where
  "server_shutdown_msg =
     JObj [(''type'', JStr ''server_shutdown''), (''message'', JStr ''Server is shutting down'')]"

section \<open>The broadcaster\<close>

text \<open>
  \<^verbatim>\<open>{...subtitleData, serverTimestamp: Date.now(), sessionId: senderSessionId}\<close>: the
  payload's properties first, then the two the server defines.
\<close>

definition broadcastData :: "int \<Rightarrow> sid \<Rightarrow> json \<Rightarrow> json" where
  "broadcastData now senderSessionId subtitleData =
     JObj (obj_set ''sessionId'' (JStr senderSessionId)
            (obj_set ''serverTimestamp'' (JInt now) (spread subtitleData)))"

text \<open>
  The \<^verbatim>\<open>forEach\<close> of \<^verbatim>\<open>broadcastSubtitle\<close>, entry by entry in the store's order. The send
  stands inside a \<^verbatim>\<open>try\<close> whose \<^verbatim>\<open>catch\<close> only logs: the attempt is made, a failure is
  written to the console, and the loop goes on.
\<close>

fun forEach_broadcast :: "(socket \<Rightarrow> bool) \<Rightarrow> json \<Rightarrow> sid \<Rightarrow> store \<Rightarrow> effect list" where
  "forEach_broadcast throws m senderSessionId [] = []"
| "forEach_broadcast throws m senderSessionId ((sessionId, session) # rest) =
     (if sessionId \<noteq> senderSessionId \<and> isActive session
      then (if throws (ws session) then [Send (ws session) m, Log (BroadcastError sessionId)]
            else [Send (ws session) m])
             @ forEach_broadcast throws m senderSessionId rest
      else forEach_broadcast throws m senderSessionId rest)"

text \<open>
  A handler's result: the store afterwards, the effects in order, and whether an
  exception left the handler.
\<close>

type_synonym result = "store \<times> effect list \<times> bool"

definition broadcastSubtitle :: "(socket \<Rightarrow> bool) \<Rightarrow> int \<Rightarrow> sid \<Rightarrow> json \<Rightarrow> store \<Rightarrow> result" where
  "broadcastSubtitle throws now senderSessionId subtitleData st =
     (case Map_get st senderSessionId of
        None \<Rightarrow> (st, [], False)
      | Some senderSession \<Rightarrow>
          (st, forEach_broadcast throws (broadcastData now senderSessionId subtitleData) senderSessionId st,
           False))"

section \<open>The message router\<close>

text \<open>\<^verbatim>\<open>data.language || 'en-US'\<close>\<close>

definition language_or_default :: "json option \<Rightarrow> json" where
  "language_or_default v = (if truthy v then the v else JStr ''en-US'')"

text \<open>
  \<^verbatim>\<open>handleWebSocketMessage(sessionId, data)\<close>. \<open>t1\<close> and \<open>t2\<close> are the first and the second
  reading of \<^verbatim>\<open>Date.now()\<close> that the handler takes. The \<^verbatim>\<open>switch\<close> compares
  \<^verbatim>\<open>data.type\<close> with \<^verbatim>\<open>===\<close>, so only a string matches a case. The session object is
  updated in place, before the reply is sent.
\<close>

definition handleWebSocketMessage ::
  "platform \<Rightarrow> (socket \<Rightarrow> bool) \<Rightarrow> int \<Rightarrow> int \<Rightarrow> sid \<Rightarrow> json \<Rightarrow> store \<Rightarrow> result" where
  "handleWebSocketMessage pf throws t1 t2 sessionId data st =
     (case Map_get st sessionId of
        None \<Rightarrow> (st, [], False)
      | Some session \<Rightarrow>
          if data = JNull then (st, [], True)
          else if get_prop data ''type'' = Some (JStr ''start_listening'') then
            (let session' = session\<lparr>isActive := True,
                                     language := language_or_default (get_prop data ''language''),
                                     startTime := t1\<rparr>
             in (Map_set st sessionId session',
                 [Send (ws session) (listening_started_msg t2 (language session'))],
                 throws (ws session)))
          else if get_prop data ''type'' = Some (JStr ''stop_listening'') then
            (Map_set st sessionId (session\<lparr>isActive := False\<rparr>),
             [Send (ws session) (listening_stopped_msg t1)],
             throws (ws session))
          else if get_prop data ''type'' = Some (JStr ''subtitle_update'') then
            broadcastSubtitle throws t1 sessionId data st
          else if get_prop data ''type'' = Some (JStr ''ping'') then
            (case to_number pf (get_prop data ''timestamp'') of
               None \<Rightarrow> (st, [], True)
             | Some n \<Rightarrow>
                 (st, [Send (ws session) (pong_msg t1 (js_minus pf (Fin (of_int t2)) n))],
                  throws (ws session)))
          else
            (case js_string pf (get_prop data ''type'') of
               None \<Rightarrow> (st, [], True)
             | Some txt \<Rightarrow> (st, [Send (ws session) (unknown_type_msg txt)], throws (ws session))))"

section \<open>The connection gateway\<close>

text \<open>
  \<^verbatim>\<open>wss.on('connection')\<close>: \<open>sessionId\<close> is what \<^verbatim>\<open>generateSessionId()\<close> returned, \<open>sock\<close>
  the new channel, \<open>t1\<close> and \<open>t2\<close> the two clock readings.
\<close>

definition on_connection :: "(socket \<Rightarrow> bool) \<Rightarrow> int \<Rightarrow> int \<Rightarrow> sid \<Rightarrow> socket \<Rightarrow> store \<Rightarrow> result" where
  "on_connection throws t1 t2 sessionId sock st =
     (Map_set st sessionId \<lparr>ws = sock, startTime = t1, language = JStr ''en-US'', isActive = False\<rparr>,
      [Log (NewSession sessionId), Send sock (session_init_msg sessionId t2)],
      throws sock)"

text \<open>
  \<^verbatim>\<open>ws.on('message')\<close> of the connection \<open>(sessionId, sock)\<close>. \<open>frame\<close> is the outcome of
  \<^verbatim>\<open>JSON.parse\<close>: \<open>None\<close> when it raises a SyntaxError. The \<^verbatim>\<open>catch\<close> takes every exception
  of the \<^verbatim>\<open>try\<close> block, those of the router included, and answers on the connection's own
  channel; an exception of that last send leaves the listener.
\<close>

definition on_message ::
  "platform \<Rightarrow> (socket \<Rightarrow> bool) \<Rightarrow> int \<Rightarrow> int \<Rightarrow> sid \<Rightarrow> socket \<Rightarrow> json option \<Rightarrow> store \<Rightarrow> result" where
  "on_message pf throws t1 t2 sessionId sock frame st =
     (case frame of
        None \<Rightarrow> (st, [Log ParseError, Send sock invalid_format_msg], throws sock)
      | Some data \<Rightarrow>
          (case handleWebSocketMessage pf throws t1 t2 sessionId data st of
             (st', effs, raised) \<Rightarrow>
               if raised then (st', effs @ [Log ParseError, Send sock invalid_format_msg], throws sock)
               else (st', effs, False)))"

text \<open>\<^verbatim>\<open>ws.on('close')\<close> and \<^verbatim>\<open>ws.on('error')\<close>: both delete the connection's id.\<close>

definition on_close :: "sid \<Rightarrow> store \<Rightarrow> result" where
  "on_close sessionId st = (Map_delete st sessionId, [Log (Disconnected sessionId)], False)"

definition on_error :: "sid \<Rightarrow> store \<Rightarrow> result" where
  "on_error sessionId st = (Map_delete st sessionId, [Log (SocketError sessionId)], False)"

section \<open>The health query and the shutdown\<close>

text \<open>
  \<^verbatim>\<open>GET /api/health\<close>. \<open>up\<close> is what \<^verbatim>\<open>process.uptime()\<close> returned, already as the value
  written into the response.
\<close>

definition health :: "int \<Rightarrow> json \<Rightarrow> store \<Rightarrow> json" where
  "health now up st =
     JObj [(''status'', JStr ''healthy''), (''timestamp'', JInt now),
           (''activeSessions'', JInt (int (Map_size st))), (''uptime'', up)]"

text \<open>
  The SIGTERM handler: the one place where the server closes channels. The close follows
  the send inside the same \<^verbatim>\<open>try\<close>, so it is skipped when the send raises.
\<close>

fun on_sigterm :: "(socket \<Rightarrow> bool) \<Rightarrow> store \<Rightarrow> effect list" where
  "on_sigterm throws [] = []"
| "on_sigterm throws ((sessionId, session) # rest) =
     (if throws (ws session) then [Send (ws session) server_shutdown_msg, Log (CloseError sessionId)]
      else [Send (ws session) server_shutdown_msg, CloseChan (ws session)])
     @ on_sigterm throws rest"

section \<open>Events\<close>

text \<open>
  The event loop delivers one event at a time and runs its handler to completion. An event
  carries what the handler reads from outside: the connection it belongs to, the decoded
  frame, the clock readings. \<open>step\<close> gives the store after the handler.
\<close>

datatype event =
    Connection sid socket int int
  | Message sid socket "json option" int int
  | Close sid
  | WsError sid

fun handle_event :: "platform \<Rightarrow> (socket \<Rightarrow> bool) \<Rightarrow> event \<Rightarrow> store \<Rightarrow> result" where
  "handle_event pf throws (Connection sessionId sock t1 t2) st = on_connection throws t1 t2 sessionId sock st"
| "handle_event pf throws (Message sessionId sock frame t1 t2) st =
     on_message pf throws t1 t2 sessionId sock frame st"
| "handle_event pf throws (Close sessionId) st = on_close sessionId st"
| "handle_event pf throws (WsError sessionId) st = on_error sessionId st"

definition step :: "platform \<Rightarrow> (socket \<Rightarrow> bool) \<Rightarrow> event \<Rightarrow> store \<Rightarrow> store" where
  "step pf throws e st = fst (handle_event pf throws e st)"

text \<open>
  The stores the server can be in: it starts empty, and every event takes it one step
  further. Each event of a run comes with its own \<open>throws\<close>.
\<close>

fun run :: "platform \<Rightarrow> ((socket \<Rightarrow> bool) \<times> event) list \<Rightarrow> store \<Rightarrow> store" where
  "run pf [] st = st"
| "run pf ((throws, e) # es) st = run pf es (step pf throws e st)"


section \<open>Observations\<close>

text \<open>The send attempts among a handler's effects, in order: channel and message.\<close>

fun sends :: "effect list \<Rightarrow> (socket \<times> json) list" where
  "sends [] = []"
| "sends (Send w m # es) = (w, m) # sends es"
| "sends (e # es) = sends es"

text \<open>
  \<open>message_type e i\<close> is the \<^verbatim>\<open>type\<close> property of the decoded frame when \<open>e\<close> is a frame
  arriving on a connection whose id is \<open>i\<close>; \<open>accepts e i\<close> says that \<open>e\<close> is the accept of a
  connection that was given the id \<open>i\<close>.
\<close>

fun message_type :: "event \<Rightarrow> sid \<Rightarrow> json option" where
  "message_type (Message j sock (Some data) t1 t2) i = (if j = i then get_prop data ''type'' else None)"
| "message_type _ i = None"

fun accepts :: "event \<Rightarrow> sid \<Rightarrow> bool" where
  "accepts (Connection j sock t1 t2) i = (j = i)"
| "accepts _ i = False"

section \<open>Facts about the store\<close>

lemma Map_get_set_same: "Map_get (Map_set st k v) k = Some v"
  by (induction st) (auto simp: Map_get_def)

lemma Map_get_set_other: "k' \<noteq> k \<Longrightarrow> Map_get (Map_set st k v) k' = Map_get st k'"
  by (induction st) (auto simp: Map_get_def)

lemma Map_get_delete_same: "Map_get (Map_delete st k) k = None"
  by (induction st) (auto simp: Map_get_def)

lemma Map_get_delete_other: "k' \<noteq> k \<Longrightarrow> Map_get (Map_delete st k) k' = Map_get st k'"
  by (induction st) (auto simp: Map_get_def)

lemma Map_delete_absent: "Map_get st k = None \<Longrightarrow> Map_delete st k = st"
  by (induction st) (auto simp: Map_get_def split: if_splits)

lemma keys_Map_set: "set (map fst (Map_set st k v)) = insert k (set (map fst st))"
  by (induction st k v rule: Map_set.induct) (simp_all add: insert_commute)

lemma keys_Map_delete: "set (map fst (Map_delete st k)) \<subseteq> set (map fst st)"
  by (induction st k rule: Map_delete.induct) (simp_all add: subset_insertI2)

text \<open>No id occurs twice in the store: \<^verbatim>\<open>set\<close> and \<^verbatim>\<open>delete\<close> keep it so.\<close>

lemma distinct_Map_set: "distinct (map fst st) \<Longrightarrow> distinct (map fst (Map_set st k v))"
proof (induction st)
  case Nil
  then show ?case by simp
next
  case (Cons p st)
  obtain k' v' where p: "p = (k', v')" by (cases p)
  from Cons.prems p have d: "distinct (map fst st)" and n: "k' \<notin> set (map fst st)" by auto
  show ?case
  proof (cases "k' = k")
    case True
    with p n d show ?thesis by simp
  next
    case False
    have "k' \<notin> set (map fst (Map_set st k v))"
      using n False unfolding keys_Map_set by simp
    with False p Cons.IH[OF d] show ?thesis by simp
  qed
qed

lemma distinct_Map_delete: "distinct (map fst st) \<Longrightarrow> distinct (map fst (Map_delete st k))"
proof (induction st)
  case Nil
  then show ?case by simp
next
  case (Cons p st)
  obtain k' v' where p: "p = (k', v')" by (cases p)
  from Cons.prems p have d: "distinct (map fst st)" and n: "k' \<notin> set (map fst st)" by auto
  have "k' \<notin> set (map fst (Map_delete st k))"
    using n keys_Map_delete[of st k] by blast
  with p Cons.IH[OF d] show ?case by simp
qed

lemma Map_size_card:
  assumes d: "distinct (map fst st)"
  shows "Map_size st = card (dom (Map_get st))"
proof -
  have "dom (Map_get st) = set (map fst st)"
    by (simp add: Map_get_def[abs_def] dom_map_of_conv_image_fst)
  then show ?thesis
    using distinct_card[OF d] by (simp add: Map_size_def)
qed

section \<open>Facts about object literals\<close>

lemma map_of_obj_set_same: "map_of (obj_set k v fs) k = Some v"
  by (induction fs) auto

lemma map_of_obj_set_other: "k' \<noteq> k \<Longrightarrow> map_of (obj_set k v fs) k' = map_of fs k'"
  by (induction fs) auto

lemma broadcastData_sessionId: "get_prop (broadcastData now S payload) ''sessionId'' = Some (JStr S)"
  by (simp add: broadcastData_def map_of_obj_set_same)

lemma broadcastData_serverTimestamp:
  "get_prop (broadcastData now S payload) ''serverTimestamp'' = Some (JInt now)"
  by (simp add: broadcastData_def map_of_obj_set_same map_of_obj_set_other)

text \<open>Every other property of the payload is forwarded as it came.\<close>

lemma broadcastData_payload:
  "k \<noteq> ''sessionId'' \<Longrightarrow> k \<noteq> ''serverTimestamp'' \<Longrightarrow>
   get_prop (broadcastData now S payload) k = map_of (spread payload) k"
  by (simp add: broadcastData_def map_of_obj_set_other)

section \<open>Facts about the broadcast loop\<close>

lemma sends_append: "sends (xs @ ys) = sends xs @ sends ys"
  by (induction xs rule: sends.induct) auto

lemma sends_forEach:
  "sends (forEach_broadcast throws m S st) =
     map (\<lambda>(i, s). (ws s, m)) (filter (\<lambda>(i, s). i \<noteq> S \<and> isActive s) st)"
  by (induction st) (auto simp: sends_append split: if_splits)

lemma no_close_forEach: "CloseChan w \<notin> set (forEach_broadcast throws m S st)"
  by (induction st) (auto split: if_splits)

text \<open>The loop skips the sender's entry, so what that entry holds does not matter.\<close>

lemma forEach_sender_flag:
  "ws v = ws s \<Longrightarrow> Map_get st S = Some s \<Longrightarrow>
   forEach_broadcast throws m S (Map_set st S v) = forEach_broadcast throws m S st"
  by (induction st) (auto simp: Map_get_def split: if_splits)

lemma subtitle_update_is_broadcast:
  assumes t: "get_prop data ''type'' = Some (JStr ''subtitle_update'')"
  shows "handleWebSocketMessage pf throws t1 t2 S data st = broadcastSubtitle throws t1 S data st"
proof -
  from t have nn: "data \<noteq> JNull" by auto
  show ?thesis
  proof (cases "Map_get st S")
    case None
    then show ?thesis
      by (simp add: handleWebSocketMessage_def broadcastSubtitle_def)
  next
    case (Some s)
    then show ?thesis using t nn
      by (simp add: handleWebSocketMessage_def broadcastSubtitle_def)
  qed
qed

lemma sends_sigterm: "sends (on_sigterm throws st) = map (\<lambda>(i, s). (ws s, server_shutdown_msg)) st"
  by (induction st) (auto simp: sends_append)

section \<open>Facts about the router and the event step\<close>

lemma get_after_handle_other:
  "i \<noteq> j \<Longrightarrow> Map_get (fst (handleWebSocketMessage pf throws t1 t2 j data st)) i = Map_get st i"
  by (simp add: handleWebSocketMessage_def broadcastSubtitle_def Let_def Map_get_set_other
      split: option.splits)

lemma get_after_handle_same:
  "Map_get st i = Some s \<Longrightarrow>
   Map_get (fst (handleWebSocketMessage pf throws t1 t2 i data st)) i =
     (if data \<noteq> JNull \<and> get_prop data ''type'' = Some (JStr ''start_listening'')
      then Some (s\<lparr>isActive := True, language := language_or_default (get_prop data ''language''),
                   startTime := t1\<rparr>)
      else if data \<noteq> JNull \<and> get_prop data ''type'' = Some (JStr ''stop_listening'')
      then Some (s\<lparr>isActive := False\<rparr>)
      else Some s)"
  by (simp add: handleWebSocketMessage_def broadcastSubtitle_def Let_def Map_get_set_same
      split: option.splits)

lemma get_after_handle_absent:
  "Map_get st i = None \<Longrightarrow> Map_get (fst (handleWebSocketMessage pf throws t1 t2 j data st)) i = None"
  by (cases "i = j") (simp_all add: get_after_handle_other, simp add: handleWebSocketMessage_def)

lemma step_Message:
  "step pf throws (Message j sock frame t1 t2) st =
     (case frame of None \<Rightarrow> st | Some data \<Rightarrow> fst (handleWebSocketMessage pf throws t1 t2 j data st))"
  by (simp add: step_def on_message_def split: option.splits prod.splits)

lemma step_accept:
  "Map_get (step pf throws (Connection i sock t1 t2) st) i =
     Some \<lparr>ws = sock, startTime = t1, language = JStr ''en-US'', isActive = False\<rparr>"
  by (simp add: step_def on_connection_def Map_get_set_same)

lemma step_remove:
  "Map_get (step pf throws (Close i) st) i = None"
  "Map_get (step pf throws (WsError i) st) i = None"
  by (simp_all add: step_def on_close_def on_error_def Map_get_delete_same)

lemma step_flag:
  assumes "Map_get st i = Some s" "Map_get (step pf throws e st) i = Some s'" "\<not> accepts e i"
  shows "(\<not> isActive s \<and> isActive s' \<longrightarrow> message_type e i = Some (JStr ''start_listening'')) \<and>
         (isActive s \<and> \<not> isActive s' \<longrightarrow> message_type e i = Some (JStr ''stop_listening''))"
proof (cases e)
  case (Connection j sock t1 t2)
  with assms show ?thesis by (auto simp: step_def on_connection_def Map_get_set_other)
next
  case (Message j sock frame t1 t2)
  show ?thesis
  proof (cases frame)
    case None
    with Message assms show ?thesis by (simp add: step_Message)
  next
    case (Some data)
    show ?thesis
    proof (cases "i = j")
      case True
      with Message Some assms get_after_handle_same[of st i s pf throws t1 t2 data]
      show ?thesis by (auto simp: step_Message split: if_splits)
    next
      case False
      with Message Some assms get_after_handle_other[of i j pf throws t1 t2 data st]
      show ?thesis by (auto simp: step_Message)
    qed
  qed
next
  case (Close j)
  with assms show ?thesis
    by (cases "i = j") (auto simp: step_def on_close_def Map_get_delete_same Map_get_delete_other)
next
  case (WsError j)
  with assms show ?thesis
    by (cases "i = j") (auto simp: step_def on_error_def Map_get_delete_same Map_get_delete_other)
qed

lemma step_start_stop:
  assumes "Map_get st i = Some s"
  shows "(message_type e i = Some (JStr ''start_listening'') \<longrightarrow>
            map_option isActive (Map_get (step pf throws e st) i) = Some True) \<and>
         (message_type e i = Some (JStr ''stop_listening'') \<longrightarrow>
            map_option isActive (Map_get (step pf throws e st) i) = Some False)"
proof (cases e)
  case (Message j sock frame t1 t2)
  show ?thesis
  proof (cases frame)
    case None
    with Message show ?thesis by simp
  next
    case (Some data)
    with Message assms get_after_handle_same[of st i s pf throws t1 t2 data]
    show ?thesis by (auto simp: step_Message)
  qed
qed simp_all

lemma step_absent:
  assumes "Map_get st i = None" "\<not> accepts e i"
  shows "Map_get (step pf throws e st) i = None"
proof (cases e)
  case (Connection j sock t1 t2)
  with assms show ?thesis by (auto simp: step_def on_connection_def Map_get_set_other)
next
  case (Message j sock frame t1 t2)
  with assms show ?thesis
    by (cases frame) (simp_all add: step_Message get_after_handle_absent)
next
  case (Close j)
  with assms show ?thesis
    by (cases "i = j") (auto simp: step_def on_close_def Map_get_delete_same Map_get_delete_other)
next
  case (WsError j)
  with assms show ?thesis
    by (cases "i = j") (auto simp: step_def on_error_def Map_get_delete_same Map_get_delete_other)
qed

lemma step_removed_by:
  assumes "Map_get st i = Some s" "Map_get (step pf throws e st) i = None"
  shows "e = Close i \<or> e = WsError i"
proof (cases e)
  case (Connection j sock t1 t2)
  with assms show ?thesis
    by (cases "i = j") (auto simp: step_def on_connection_def Map_get_set_other Map_get_set_same)
next
  case (Message j sock frame t1 t2)
  show ?thesis
  proof (cases frame)
    case None
    with Message assms show ?thesis by (simp add: step_Message)
  next
    case (Some data)
    show ?thesis
    proof (cases "i = j")
      case True
      with Message Some assms get_after_handle_same[of st i s pf throws t1 t2 data]
      show ?thesis by (auto simp: step_Message split: if_splits)
    next
      case False
      with Message Some assms get_after_handle_other[of i j pf throws t1 t2 data st]
      show ?thesis by (auto simp: step_Message)
    qed
  qed
next
  case (Close j)
  with assms show ?thesis
    by (cases "i = j") (auto simp: step_def on_close_def Map_get_delete_other)
next
  case (WsError j)
  with assms show ?thesis
    by (cases "i = j") (auto simp: step_def on_error_def Map_get_delete_other)
qed

lemma ping_subtitle_state_independent:
  assumes g: "Map_get st i = Some s"
    and t: "get_prop data ''type'' = Some (JStr ''ping'') \<or>
            get_prop data ''type'' = Some (JStr ''subtitle_update'')"
  shows "fst (handleWebSocketMessage pf throws t1 t2 i data st) = st \<and>
         handleWebSocketMessage pf throws t1 t2 i data (Map_set st i (s\<lparr>isActive := b\<rparr>)) =
           (Map_set st i (s\<lparr>isActive := b\<rparr>), snd (handleWebSocketMessage pf throws t1 t2 i data st))"
proof -
  from t have nn: "data \<noteq> JNull" by auto
  have f: "forEach_broadcast throws m i (Map_set st i (s\<lparr>isActive := b\<rparr>)) = forEach_broadcast throws m i st"
    for m using forEach_sender_flag[of "s\<lparr>isActive := b\<rparr>" s st i throws m] g by simp
  from t show ?thesis
  proof
    assume "get_prop data ''type'' = Some (JStr ''ping'')"
    with g nn show ?thesis
      by (simp add: handleWebSocketMessage_def Map_get_set_same split: option.splits)
  next
    assume "get_prop data ''type'' = Some (JStr ''subtitle_update'')"
    with g nn f show ?thesis
      by (simp add: handleWebSocketMessage_def broadcastSubtitle_def Map_get_set_same)
  qed
qed

lemma keys_handle:
  "distinct (map fst st) \<Longrightarrow> distinct (map fst (fst (handleWebSocketMessage pf throws t1 t2 i data st)))"
  by (auto simp: handleWebSocketMessage_def broadcastSubtitle_def Let_def distinct_Map_set
      split: option.splits)

lemma distinct_step: "distinct (map fst st) \<Longrightarrow> distinct (map fst (step pf throws e st))"
proof (cases e)
  case (Message j sock frame t1 t2)
  assume d: "distinct (map fst st)"
  show ?thesis
  proof (cases frame)
    case None
    with Message d show ?thesis by (simp add: step_Message)
  next
    case (Some data)
    with Message keys_handle[OF d, of pf throws t1 t2 j data] show ?thesis
      by (simp add: step_Message)
  qed
qed (simp_all add: step_def on_connection_def on_close_def on_error_def distinct_Map_set distinct_Map_delete)

lemma distinct_run: "distinct (map fst st) \<Longrightarrow> distinct (map fst (run pf evs st))"
  by (induction evs arbitrary: st) (auto simp: distinct_step)

section \<open>Claims about the broadcaster\<close>

text \<open>
  Claim C1. A \<^verbatim>\<open>subtitle_update\<close> message of a connection with id \<open>S\<close> is handed to
  \<open>broadcastSubtitle\<close> as it is. When \<open>S\<close> is in the store, the store stays as it was and
  the send attempts are, in the store's order, one for each entry whose id differs from
  \<open>S\<close> and whose active flag is set, each carrying the payload extended with the server's
  timestamp and \<open>S\<close>; so none goes to the entry of \<open>S\<close> and none to an inactive entry.
  When \<open>S\<close> is not in the store nothing happens.
\<close>

theorem broadcast_recipients:
  "(get_prop data ''type'' = Some (JStr ''subtitle_update'') \<longrightarrow>
      handleWebSocketMessage pf throws now t2 S data st = broadcastSubtitle throws now S data st) \<and>
   (Map_get st S = Some sender \<longrightarrow>
      fst (broadcastSubtitle throws now S payload st) = st \<and>
      sends (fst (snd (broadcastSubtitle throws now S payload st))) =
        map (\<lambda>(i, s). (ws s, broadcastData now S payload))
            (filter (\<lambda>(i, s). i \<noteq> S \<and> isActive s) st)) \<and>
   (Map_get st S = None \<longrightarrow> broadcastSubtitle throws now S payload st = (st, [], False))"
  using subtitle_update_is_broadcast[of data pf throws now t2 S st]
  by (simp add: broadcastSubtitle_def sends_forEach)

theorem broadcast_recipients_witness:
  "get_prop (JObj [(''type'', JStr ''subtitle_update''), (''text'', JStr ''bonjour'')]) ''type''
     = Some (JStr ''subtitle_update'') \<and>
   Map_get [(''a'', \<lparr>ws = 1, startTime = 0, language = JStr ''fr-FR'', isActive = True\<rparr>),
            (''b'', \<lparr>ws = 2, startTime = 0, language = JStr ''en-US'', isActive = True\<rparr>),
            (''c'', \<lparr>ws = 3, startTime = 0, language = JStr ''en-US'', isActive = False\<rparr>)] ''a''
     = Some \<lparr>ws = 1, startTime = 0, language = JStr ''fr-FR'', isActive = True\<rparr> \<and>
   handleWebSocketMessage unused_platform (\<lambda>w. False) 1000 1001 ''a''
       (JObj [(''type'', JStr ''subtitle_update''), (''text'', JStr ''bonjour'')])
       [(''a'', \<lparr>ws = 1, startTime = 0, language = JStr ''fr-FR'', isActive = True\<rparr>),
        (''b'', \<lparr>ws = 2, startTime = 0, language = JStr ''en-US'', isActive = True\<rparr>),
        (''c'', \<lparr>ws = 3, startTime = 0, language = JStr ''en-US'', isActive = False\<rparr>)]
     = ([(''a'', \<lparr>ws = 1, startTime = 0, language = JStr ''fr-FR'', isActive = True\<rparr>),
         (''b'', \<lparr>ws = 2, startTime = 0, language = JStr ''en-US'', isActive = True\<rparr>),
         (''c'', \<lparr>ws = 3, startTime = 0, language = JStr ''en-US'', isActive = False\<rparr>)],
        [Send 2 (JObj [(''type'', JStr ''subtitle_update''), (''text'', JStr ''bonjour''),
                       (''serverTimestamp'', JInt 1000), (''sessionId'', JStr ''a'')])],
        False) \<and>
   Map_get [(''b'', \<lparr>ws = 2, startTime = 0, language = JStr ''en-US'', isActive = True\<rparr>)] ''z'' = None \<and>
   broadcastSubtitle (\<lambda>w. False) 1000 ''z''
       (JObj [(''type'', JStr ''subtitle_update''), (''text'', JStr ''bonjour'')])
       [(''b'', \<lparr>ws = 2, startTime = 0, language = JStr ''en-US'', isActive = True\<rparr>)]
     = ([(''b'', \<lparr>ws = 2, startTime = 0, language = JStr ''en-US'', isActive = True\<rparr>)], [], False)"
  using broadcast_recipients [where
      st = "[(''a'', \<lparr>ws = 1, startTime = 0, language = JStr ''fr-FR'', isActive = True\<rparr>),
             (''b'', \<lparr>ws = 2, startTime = 0, language = JStr ''en-US'', isActive = True\<rparr>),
             (''c'', \<lparr>ws = 3, startTime = 0, language = JStr ''en-US'', isActive = False\<rparr>)]"
      and S = "''a''"
      and sender = "\<lparr>ws = 1, startTime = 0, language = JStr ''fr-FR'', isActive = True\<rparr>"
      and throws = "\<lambda>w. False" and pf = unused_platform and now = 1000 and ?t2.0 = 1001
      and data = "JObj [(''type'', JStr ''subtitle_update''), (''text'', JStr ''bonjour'')]"
      and payload = "JObj [(''type'', JStr ''subtitle_update''), (''text'', JStr ''bonjour'')]"]
    broadcast_recipients [where
      st = "[(''b'', \<lparr>ws = 2, startTime = 0, language = JStr ''en-US'', isActive = True\<rparr>)]"
      and S = "''z''" and throws = "\<lambda>w. False" and now = 1000
      and payload = "JObj [(''type'', JStr ''subtitle_update''), (''text'', JStr ''bonjour'')]"]
  by (simp add: Map_get_def broadcastData_def broadcastSubtitle_def)

text \<open>
  Claim C5. Whatever channels fail while a broadcast runs, the broadcast makes the same
  send attempts as when none fails (one for every eligible entry), leaves the store as it
  was, lets no exception out and closes no channel; and the sender's own message handler
  ends with the broadcast's result, without an error reply and without an exception.
\<close>

theorem broadcast_send_failure_contained:
  "fst (broadcastSubtitle throws now S payload st) = st \<and>
   snd (snd (broadcastSubtitle throws now S payload st)) = False \<and>
   sends (fst (snd (broadcastSubtitle throws now S payload st))) =
     sends (fst (snd (broadcastSubtitle (\<lambda>w. False) now S payload st))) \<and>
   (Map_get st S = Some sender \<longrightarrow>
      sends (fst (snd (broadcastSubtitle throws now S payload st))) =
        map (\<lambda>(i, s). (ws s, broadcastData now S payload))
            (filter (\<lambda>(i, s). i \<noteq> S \<and> isActive s) st)) \<and>
   CloseChan w \<notin> set (fst (snd (broadcastSubtitle throws now S payload st))) \<and>
   (get_prop data ''type'' = Some (JStr ''subtitle_update'') \<longrightarrow>
      on_message pf throws t1 t2 S sock (Some data) st = broadcastSubtitle throws t1 S data st)"
proof -
  have a: "fst (broadcastSubtitle throws now S payload st) = st"
    by (simp add: broadcastSubtitle_def split: option.splits)
  have b: "snd (snd (broadcastSubtitle throws now S payload st)) = False"
    by (simp add: broadcastSubtitle_def split: option.splits)
  have c: "sends (fst (snd (broadcastSubtitle throws now S payload st))) =
     sends (fst (snd (broadcastSubtitle (\<lambda>w. False) now S payload st)))"
    by (simp add: broadcastSubtitle_def sends_forEach split: option.splits)
  have c': "sends (fst (snd (broadcastSubtitle throws now S payload st))) =
        map (\<lambda>(i, s). (ws s, broadcastData now S payload))
            (filter (\<lambda>(i, s). i \<noteq> S \<and> isActive s) st)"
    if "Map_get st S = Some sender"
    using that by (simp add: broadcastSubtitle_def sends_forEach)
  have d: "CloseChan w \<notin> set (fst (snd (broadcastSubtitle throws now S payload st)))"
    by (simp add: broadcastSubtitle_def no_close_forEach split: option.splits)
  have e: "on_message pf throws t1 t2 S sock (Some data) st = broadcastSubtitle throws t1 S data st"
    if t: "get_prop data ''type'' = Some (JStr ''subtitle_update'')"
  proof -
    have "snd (snd (broadcastSubtitle throws t1 S data st)) = False"
      by (simp add: broadcastSubtitle_def split: option.splits)
    then show ?thesis
      using subtitle_update_is_broadcast[OF t, of pf throws t1 t2 S st]
      by (cases "broadcastSubtitle throws t1 S data st") (simp add: on_message_def)
  qed
  from a b c c' d e show ?thesis by blast
qed

theorem broadcast_send_failure_contained_witness:
  "Map_get [(''a'', \<lparr>ws = 1, startTime = 0, language = JStr ''fr-FR'', isActive = True\<rparr>),
            (''b'', \<lparr>ws = 2, startTime = 0, language = JStr ''en-US'', isActive = True\<rparr>),
            (''c'', \<lparr>ws = 3, startTime = 0, language = JStr ''en-US'', isActive = True\<rparr>)] ''a''
     = Some \<lparr>ws = 1, startTime = 0, language = JStr ''fr-FR'', isActive = True\<rparr> \<and>
   get_prop (JObj [(''type'', JStr ''subtitle_update''), (''text'', JStr ''hi'')]) ''type''
     = Some (JStr ''subtitle_update'') \<and>
   on_message unused_platform (\<lambda>w. w = 2) 1000 1001 ''a'' 1
       (Some (JObj [(''type'', JStr ''subtitle_update''), (''text'', JStr ''hi'')]))
       [(''a'', \<lparr>ws = 1, startTime = 0, language = JStr ''fr-FR'', isActive = True\<rparr>),
        (''b'', \<lparr>ws = 2, startTime = 0, language = JStr ''en-US'', isActive = True\<rparr>),
        (''c'', \<lparr>ws = 3, startTime = 0, language = JStr ''en-US'', isActive = True\<rparr>)]
     = ([(''a'', \<lparr>ws = 1, startTime = 0, language = JStr ''fr-FR'', isActive = True\<rparr>),
         (''b'', \<lparr>ws = 2, startTime = 0, language = JStr ''en-US'', isActive = True\<rparr>),
         (''c'', \<lparr>ws = 3, startTime = 0, language = JStr ''en-US'', isActive = True\<rparr>)],
        [Send 2 (JObj [(''type'', JStr ''subtitle_update''), (''text'', JStr ''hi''),
                       (''serverTimestamp'', JInt 1000), (''sessionId'', JStr ''a'')]),
         Log (BroadcastError ''b''),
         Send 3 (JObj [(''type'', JStr ''subtitle_update''), (''text'', JStr ''hi''),
                       (''serverTimestamp'', JInt 1000), (''sessionId'', JStr ''a'')])],
        False)"
  using broadcast_send_failure_contained [where
      st = "[(''a'', \<lparr>ws = 1, startTime = 0, language = JStr ''fr-FR'', isActive = True\<rparr>),
             (''b'', \<lparr>ws = 2, startTime = 0, language = JStr ''en-US'', isActive = True\<rparr>),
             (''c'', \<lparr>ws = 3, startTime = 0, language = JStr ''en-US'', isActive = True\<rparr>)]"
      and S = "''a''"
      and sender = "\<lparr>ws = 1, startTime = 0, language = JStr ''fr-FR'', isActive = True\<rparr>"
      and throws = "\<lambda>w. w = 2" and pf = unused_platform and now = 1000 and ?t1.0 = 1000 and ?t2.0 = 1001
      and sock = 1 and w = 1
      and data = "JObj [(''type'', JStr ''subtitle_update''), (''text'', JStr ''hi'')]"
      and payload = "JObj [(''type'', JStr ''subtitle_update''), (''text'', JStr ''hi'')]"]
  by (simp add: Map_get_def broadcastData_def broadcastSubtitle_def)

text \<open>
  Claim C10. Whatever the payload holds, its own \<^verbatim>\<open>sessionId\<close> and \<^verbatim>\<open>serverTimestamp\<close>
  included, the message built for the recipients has the sender's id, as the server
  assigned it, under \<^verbatim>\<open>sessionId\<close> and the server's clock reading under
  \<^verbatim>\<open>serverTimestamp\<close>, and that is the message of every send attempt of the broadcast.
\<close>

theorem broadcast_overrides_identity:
  "get_prop (broadcastData now S payload) ''sessionId'' = Some (JStr S) \<and>
   get_prop (broadcastData now S payload) ''serverTimestamp'' = Some (JInt now) \<and>
   (\<forall>(w, m) \<in> set (sends (fst (snd (broadcastSubtitle throws now S payload st)))).
      get_prop m ''sessionId'' = Some (JStr S) \<and> get_prop m ''serverTimestamp'' = Some (JInt now))"
proof -
  have "\<forall>(w, m) \<in> set (sends (fst (snd (broadcastSubtitle throws now S payload st)))).
          m = broadcastData now S payload"
    by (auto simp: broadcastSubtitle_def sends_forEach split: option.splits)
  then show ?thesis
    using broadcastData_sessionId[of now S payload] broadcastData_serverTimestamp[of now S payload]
    by auto
qed

theorem broadcast_overrides_identity_witness:
  "sends (fst (snd (broadcastSubtitle (\<lambda>w. False) 1000 ''a''
       (JObj [(''type'', JStr ''subtitle_update''), (''sessionId'', JStr ''b''),
              (''serverTimestamp'', JInt 1), (''text'', JStr ''hi'')])
       [(''a'', \<lparr>ws = 1, startTime = 0, language = JStr ''fr-FR'', isActive = True\<rparr>),
        (''b'', \<lparr>ws = 2, startTime = 0, language = JStr ''en-US'', isActive = True\<rparr>)])))
     = [(2, JObj [(''type'', JStr ''subtitle_update''), (''sessionId'', JStr ''a''),
                  (''serverTimestamp'', JInt 1000), (''text'', JStr ''hi'')])] \<and>
   get_prop (JObj [(''type'', JStr ''subtitle_update''), (''sessionId'', JStr ''a''),
                   (''serverTimestamp'', JInt 1000), (''text'', JStr ''hi'')]) ''sessionId''
     = Some (JStr ''a'') \<and>
   get_prop (JObj [(''type'', JStr ''subtitle_update''), (''sessionId'', JStr ''a''),
                   (''serverTimestamp'', JInt 1000), (''text'', JStr ''hi'')]) ''serverTimestamp''
     = Some (JInt 1000)"
  using broadcast_overrides_identity [where
      st = "[(''a'', \<lparr>ws = 1, startTime = 0, language = JStr ''fr-FR'', isActive = True\<rparr>),
             (''b'', \<lparr>ws = 2, startTime = 0, language = JStr ''en-US'', isActive = True\<rparr>)]"
      and S = "''a''" and throws = "\<lambda>w. False" and now = 1000
      and payload = "JObj [(''type'', JStr ''subtitle_update''), (''sessionId'', JStr ''b''),
                           (''serverTimestamp'', JInt 1), (''text'', JStr ''hi'')]"]
  by (simp add: Map_get_def broadcastData_def broadcastSubtitle_def)


section \<open>Claims about the session life cycle\<close>

text \<open>
  Claim C2. The state machine of one session, read off the entry that the store holds
  under its id \<open>i\<close>. The accept of a connection given the id \<open>i\<close> enters a session whose
  active flag is off. Under every other event an entry that stays in the store gets its
  flag switched on only by a \<^verbatim>\<open>start_listening\<close> message of a connection with that id and
  switched off only by a \<^verbatim>\<open>stop_listening\<close> message of such a connection, and these two
  messages do set the flag on and off. A close or a transport error of the connection
  removes the entry, nothing else removes it, and once removed it stays absent until a
  connection is accepted under the same id. A \<^verbatim>\<open>ping\<close> and a \<^verbatim>\<open>subtitle_update\<close> leave the
  store alone and produce the same effects and outcome whichever value the sender's flag has.
\<close>

theorem session_state_machine:
  "Map_get (step pf throws (Connection i sock t1 t2) st) i =
     Some \<lparr>ws = sock, startTime = t1, language = JStr ''en-US'', isActive = False\<rparr> \<and>
   (Map_get st i = Some s \<and> Map_get (step pf throws e st) i = Some s' \<and> \<not> accepts e i \<longrightarrow>
      (\<not> isActive s \<and> isActive s' \<longrightarrow> message_type e i = Some (JStr ''start_listening'')) \<and>
      (isActive s \<and> \<not> isActive s' \<longrightarrow> message_type e i = Some (JStr ''stop_listening''))) \<and>
   (Map_get st i = Some s \<and> message_type e i = Some (JStr ''start_listening'') \<longrightarrow>
      map_option isActive (Map_get (step pf throws e st) i) = Some True) \<and>
   (Map_get st i = Some s \<and> message_type e i = Some (JStr ''stop_listening'') \<longrightarrow>
      map_option isActive (Map_get (step pf throws e st) i) = Some False) \<and>
   Map_get (step pf throws (Close i) st) i = None \<and>
   Map_get (step pf throws (WsError i) st) i = None \<and>
   (Map_get st i = Some s \<and> Map_get (step pf throws e st) i = None \<longrightarrow> e = Close i \<or> e = WsError i) \<and>
   (Map_get st i = None \<and> \<not> accepts e i \<longrightarrow> Map_get (step pf throws e st) i = None) \<and>
   (Map_get st i = Some s \<and>
    (get_prop data ''type'' = Some (JStr ''ping'') \<or>
     get_prop data ''type'' = Some (JStr ''subtitle_update'')) \<longrightarrow>
      fst (handleWebSocketMessage pf throws t1 t2 i data st) = st \<and>
      handleWebSocketMessage pf throws t1 t2 i data (Map_set st i (s\<lparr>isActive := b\<rparr>)) =
        (Map_set st i (s\<lparr>isActive := b\<rparr>), snd (handleWebSocketMessage pf throws t1 t2 i data st)))"
  using step_accept[of pf throws i sock t1 t2 st] step_flag[of st i s pf throws e s']
    step_start_stop[of st i s e pf throws] step_remove[of pf throws i st]
    step_removed_by[of st i s pf throws e] step_absent[of st i e pf throws]
    ping_subtitle_state_independent[of st i s data pf throws t1 t2 b]
  by blast

theorem session_state_machine_witness:
  "Map_get [(''a'', \<lparr>ws = 1, startTime = 0, language = JStr ''en-US'', isActive = False\<rparr>)] ''a''
     = Some \<lparr>ws = 1, startTime = 0, language = JStr ''en-US'', isActive = False\<rparr> \<and>
   \<not> accepts (Message ''a'' 1 (Some (JObj [(''type'', JStr ''start_listening'')])) 50 51) ''a'' \<and>
   message_type (Message ''a'' 1 (Some (JObj [(''type'', JStr ''start_listening'')])) 50 51) ''a''
     = Some (JStr ''start_listening'') \<and>
   Map_get (step unused_platform (\<lambda>w. False)
              (Message ''a'' 1 (Some (JObj [(''type'', JStr ''start_listening'')])) 50 51)
              [(''a'', \<lparr>ws = 1, startTime = 0, language = JStr ''en-US'', isActive = False\<rparr>)]) ''a''
     = Some \<lparr>ws = 1, startTime = 50, language = JStr ''en-US'', isActive = True\<rparr> \<and>
   Map_get (step unused_platform (\<lambda>w. False) (Connection ''a'' 1 50 51)
              [(''a'', \<lparr>ws = 1, startTime = 0, language = JStr ''en-US'', isActive = False\<rparr>)]) ''a''
     = Some \<lparr>ws = 1, startTime = 50, language = JStr ''en-US'', isActive = False\<rparr> \<and>
   Map_get (step unused_platform (\<lambda>w. False) (Close ''a'')
              [(''a'', \<lparr>ws = 1, startTime = 0, language = JStr ''en-US'', isActive = False\<rparr>)]) ''a''
     = None \<and>
   get_prop (JObj [(''type'', JStr ''ping''), (''timestamp'', JInt 40)]) ''type'' = Some (JStr ''ping'') \<and>
   handleWebSocketMessage unused_platform (\<lambda>w. False) 50 51 ''a''
       (JObj [(''type'', JStr ''ping''), (''timestamp'', JInt 40)])
       (Map_set [(''a'', \<lparr>ws = 1, startTime = 0, language = JStr ''en-US'', isActive = False\<rparr>)] ''a''
          (\<lparr>ws = 1, startTime = 0, language = JStr ''en-US'', isActive = False\<rparr>\<lparr>isActive := True\<rparr>))
     = ([(''a'', \<lparr>ws = 1, startTime = 0, language = JStr ''en-US'', isActive = True\<rparr>)],
        [Send 1 (JObj [(''type'', JStr ''pong''), (''timestamp'', JInt 50), (''latency'', JInt 11)])],
        False)"
  using session_state_machine [where
      st = "[(''a'', \<lparr>ws = 1, startTime = 0, language = JStr ''en-US'', isActive = False\<rparr>)]"
      and i = "''a''"
      and s = "\<lparr>ws = 1, startTime = 0, language = JStr ''en-US'', isActive = False\<rparr>"
      and s' = "\<lparr>ws = 1, startTime = 50, language = JStr ''en-US'', isActive = True\<rparr>"
      and e = "Message ''a'' 1 (Some (JObj [(''type'', JStr ''start_listening'')])) 50 51"
      and pf = unused_platform and throws = "\<lambda>w. False" and sock = 1 and ?t1.0 = 50 and ?t2.0 = 51
      and data = "JObj [(''type'', JStr ''ping''), (''timestamp'', JInt 40)]" and b = True]
  by (simp add: Map_get_def step_def on_message_def on_connection_def on_close_def
      handleWebSocketMessage_def Let_def language_or_default_def pong_msg_def exact_int_def)

text \<open>
  Claim C6. Removing an id that the store does not hold leaves the store as it is, for the
  close handler and for the error handler alike; after either handler the id is absent, so
  a second close or error finds it absent and changes nothing; and neither handler raises.
\<close>

theorem remove_idempotent:
  "(Map_get st i = None \<longrightarrow>
      on_close i st = (st, [Log (Disconnected i)], False) \<and>
      on_error i st = (st, [Log (SocketError i)], False)) \<and>
   Map_get (fst (on_close i st)) i = None \<and>
   Map_get (fst (on_error i st)) i = None \<and>
   fst (on_close i (fst (on_close i st))) = fst (on_close i st) \<and>
   fst (on_error i (fst (on_close i st))) = fst (on_close i st) \<and>
   fst (on_close i (fst (on_error i st))) = fst (on_error i st) \<and>
   fst (on_error i (fst (on_error i st))) = fst (on_error i st) \<and>
   \<not> snd (snd (on_close i st)) \<and> \<not> snd (snd (on_error i st))"
  by (simp add: on_close_def on_error_def Map_delete_absent Map_get_delete_same)

theorem remove_idempotent_witness:
  "Map_get [(''b'', \<lparr>ws = 2, startTime = 0, language = JStr ''en-US'', isActive = True\<rparr>)] ''a'' = None \<and>
   on_close ''a'' [(''b'', \<lparr>ws = 2, startTime = 0, language = JStr ''en-US'', isActive = True\<rparr>)]
     = ([(''b'', \<lparr>ws = 2, startTime = 0, language = JStr ''en-US'', isActive = True\<rparr>)],
        [Log (Disconnected ''a'')], False) \<and>
   on_error ''a'' [(''b'', \<lparr>ws = 2, startTime = 0, language = JStr ''en-US'', isActive = True\<rparr>)]
     = ([(''b'', \<lparr>ws = 2, startTime = 0, language = JStr ''en-US'', isActive = True\<rparr>)],
        [Log (SocketError ''a'')], False)"
  using remove_idempotent [of
      "[(''b'', \<lparr>ws = 2, startTime = 0, language = JStr ''en-US'', isActive = True\<rparr>)]" "''a''"]
  by (simp add: Map_get_def)

text \<open>
  Claim C9. In every store that a sequence of events leads to from the empty one, the
  \<^verbatim>\<open>activeSessions\<close> field of the health response is the number of ids the store holds,
  whatever their active flags are.
\<close>

theorem health_counts_sessions:
  "get_prop (health now up (run pf evs [])) ''activeSessions'' =
     Some (JInt (int (card (dom (Map_get (run pf evs []))))))"
  using Map_size_card[OF distinct_run[of "[]" pf evs]]
  by (simp add: health_def)

theorem health_counts_sessions_witness:
  "get_prop (health 70 (JInt 3)
       (run unused_platform
          [(\<lambda>w. False, Connection ''a'' 1 10 11), (\<lambda>w. False, Connection ''b'' 2 20 21),
           (\<lambda>w. False, Message ''a'' 1 (Some (JObj [(''type'', JStr ''start_listening'')])) 30 31)]
          [])) ''activeSessions''
     = Some (JInt 2) \<and>
   run unused_platform
     [(\<lambda>w. False, Connection ''a'' 1 10 11), (\<lambda>w. False, Connection ''b'' 2 20 21),
      (\<lambda>w. False, Message ''a'' 1 (Some (JObj [(''type'', JStr ''start_listening'')])) 30 31)]
     []
     = [(''a'', \<lparr>ws = 1, startTime = 30, language = JStr ''en-US'', isActive = True\<rparr>),
        (''b'', \<lparr>ws = 2, startTime = 20, language = JStr ''en-US'', isActive = False\<rparr>)]"
proof -
  have r: "run unused_platform
     [(\<lambda>w. False, Connection ''a'' 1 10 11), (\<lambda>w. False, Connection ''b'' 2 20 21),
      (\<lambda>w. False, Message ''a'' 1 (Some (JObj [(''type'', JStr ''start_listening'')])) 30 31)]
     []
     = [(''a'', \<lparr>ws = 1, startTime = 30, language = JStr ''en-US'', isActive = True\<rparr>),
        (''b'', \<lparr>ws = 2, startTime = 20, language = JStr ''en-US'', isActive = False\<rparr>)]"
    by (simp add: step_def on_connection_def on_message_def handleWebSocketMessage_def
        Map_get_def Let_def language_or_default_def)
  have d: "dom (Map_get [(''a'', \<lparr>ws = 1, startTime = 30, language = JStr ''en-US'', isActive = True\<rparr>),
        (''b'', \<lparr>ws = 2, startTime = 20, language = JStr ''en-US'', isActive = False\<rparr>)]) = {''a'', ''b''}"
    by (auto simp: Map_get_def[abs_def] split: if_splits)
  have c: "card {''a'', ''b''} = 2" by simp
  show ?thesis
    using health_counts_sessions [of 70 "JInt 3" unused_platform
      "[(\<lambda>w. False, Connection ''a'' 1 10 11), (\<lambda>w. False, Connection ''b'' 2 20 21),
        (\<lambda>w. False, Message ''a'' 1 (Some (JObj [(''type'', JStr ''start_listening'')])) 30 31)]"]
    unfolding r d c by simp
qed

section \<open>Claims about the router\<close>




text \<open>
  Claim C4, as amended. For a session in the store and a \<^verbatim>\<open>ping\<close> whose \<^verbatim>\<open>timestamp\<close> is
  a number, the handler attempts a \<^verbatim>\<open>pong\<close> reply on the session's channel whose latency
  is what the subtraction of doubles makes of the clock's reading minus the timestamp,
  written as \<^verbatim>\<open>null\<close> when that is not a finite number. When the timestamp is an integer
  \<open>T\<close> no further than \<open>2\<^sup>5\<^sup>3\<close> from the reading, the latency is the reading minus \<open>T\<close>
  exactly, and it is non-negative exactly when \<open>T\<close> is not later than the reading.
\<close>

theorem ping_latency:
  assumes "Map_get st i = Some s"
    and "get_prop data ''type'' = Some (JStr ''ping'')"
    and "get_prop data ''timestamp'' = Some (JNum x)"
  shows "handleWebSocketMessage pf throws t1 t2 i data st =
           (st, [Send (ws s) (pong_msg t1 (js_minus pf (Fin (of_int t2)) x))], throws (ws s)) \<and>
         get_prop (pong_msg t1 (js_minus pf (Fin (of_int t2)) x)) ''type'' = Some (JStr ''pong'') \<and>
         get_prop (pong_msg t1 (js_minus pf (Fin (of_int t2)) x)) ''latency'' =
           Some (num_json (js_minus pf (Fin (of_int t2)) x)) \<and>
         ((\<forall>q. js_minus pf (Fin (of_int t2)) x \<noteq> Fin q) \<longrightarrow>
            get_prop (pong_msg t1 (js_minus pf (Fin (of_int t2)) x)) ''latency'' = Some JNull) \<and>
         (\<forall>T. x = Fin (of_int T) \<and> \<bar>t2 - T\<bar> \<le> 9007199254740992 \<longrightarrow>
            get_prop (pong_msg t1 (js_minus pf (Fin (of_int t2)) x)) ''latency'' = Some (JInt (t2 - T)) \<and>
            ((0 \<le> t2 - T) = (T \<le> t2)))"
proof -
  let ?lat = "js_minus pf (Fin (of_int t2)) x"
  from assms(2) have nn: "data \<noteq> JNull" by auto
  have h: "handleWebSocketMessage pf throws t1 t2 i data st =
           (st, [Send (ws s) (pong_msg t1 ?lat)], throws (ws s))"
    using assms nn by (simp add: handleWebSocketMessage_def)
  have p: "get_prop (pong_msg t1 ?lat) ''type'' = Some (JStr ''pong'')"
    "get_prop (pong_msg t1 ?lat) ''latency'' = Some (num_json ?lat)"
    by (simp_all add: pong_msg_def)
  have n: "get_prop (pong_msg t1 ?lat) ''latency'' = Some JNull" if "\<forall>q. ?lat \<noteq> Fin q"
    using that p(2) by (cases ?lat) simp_all
  have e: "get_prop (pong_msg t1 ?lat) ''latency'' = Some (JInt (t2 - T)) \<and> ((0 \<le> t2 - T) = (T \<le> t2))"
    if x: "x = Fin (of_int T)" and b: "\<bar>t2 - T\<bar> \<le> 9007199254740992" for T
  proof -
    have d: "(of_int t2 :: rat) - of_int T = of_int (t2 - T)" by simp
    have "\<bar>(of_int (t2 - T) :: rat)\<bar> \<le> of_int 9007199254740992"
      using b unfolding of_int_abs[symmetric] of_int_le_iff .
    then have "exact_int (of_int (t2 - T))"
      by (simp add: exact_int_def)
    then have "?lat = Fin (of_int (t2 - T))"
      unfolding x by (simp del: of_int_diff add: d)
    then have "get_prop (pong_msg t1 ?lat) ''latency'' = Some (JInt (t2 - T))"
      using p(2) by simp
    moreover have "(0 \<le> t2 - T) = (T \<le> t2)" by arith
    ultimately show ?thesis by simp
  qed
  from h p n e show ?thesis by blast
qed

theorem ping_latency_witness:
  "Map_get [(''a'', \<lparr>ws = 1, startTime = 0, language = JStr ''en-US'', isActive = False\<rparr>)] ''a''
     = Some \<lparr>ws = 1, startTime = 0, language = JStr ''en-US'', isActive = False\<rparr> \<and>
   get_prop (JObj [(''type'', JStr ''ping''), (''timestamp'', JInt 40)]) ''type'' = Some (JStr ''ping'') \<and>
   get_prop (JObj [(''type'', JStr ''ping''), (''timestamp'', JInt 40)]) ''timestamp'' = Some (JInt 40) \<and>
   \<bar>51 - 40\<bar> \<le> (9007199254740992 :: int) \<and>
   handleWebSocketMessage unused_platform (\<lambda>w. False) 50 51 ''a''
       (JObj [(''type'', JStr ''ping''), (''timestamp'', JInt 40)])
       [(''a'', \<lparr>ws = 1, startTime = 0, language = JStr ''en-US'', isActive = False\<rparr>)]
     = ([(''a'', \<lparr>ws = 1, startTime = 0, language = JStr ''en-US'', isActive = False\<rparr>)],
        [Send 1 (JObj [(''type'', JStr ''pong''), (''timestamp'', JInt 50), (''latency'', JInt 11)])],
        False)"
  using ping_latency [of
      "[(''a'', \<lparr>ws = 1, startTime = 0, language = JStr ''en-US'', isActive = False\<rparr>)]" "''a''"
      "\<lparr>ws = 1, startTime = 0, language = JStr ''en-US'', isActive = False\<rparr>"
      "JObj [(''type'', JStr ''ping''), (''timestamp'', JInt 40)]" "Fin 40"
      unused_platform "\<lambda>w. False" 50 51]
  by (simp add: Map_get_def pong_msg_def handleWebSocketMessage_def exact_int_def)

text \<open>
  The claim as first stated has the latency equal to the difference and never negative. A
  \<^verbatim>\<open>ping\<close> stamped 60 that the server handles when its clock reads 51 is answered with the
  latency \<open>-9\<close>. A \<^verbatim>\<open>ping\<close> whose timestamp is written \<^verbatim>\<open>1e999\<close> decodes to an infinite
  timestamp and is answered with the latency \<^verbatim>\<open>null\<close>, which is no difference at all.
\<close>

theorem ping_negative_latency_counterexample:
  "handleWebSocketMessage unused_platform (\<lambda>w. False) 50 51 ''a''
       (JObj [(''type'', JStr ''ping''), (''timestamp'', JInt 60)])
       [(''a'', \<lparr>ws = 1, startTime = 0, language = JStr ''en-US'', isActive = False\<rparr>)]
     = ([(''a'', \<lparr>ws = 1, startTime = 0, language = JStr ''en-US'', isActive = False\<rparr>)],
        [Send 1 (JObj [(''type'', JStr ''pong''), (''timestamp'', JInt 50), (''latency'', JInt (- 9))])],
        False) \<and>
   \<not> (0::int) \<le> - 9 \<and>
   handleWebSocketMessage unused_platform (\<lambda>w. False) 50 51 ''a''
       (JObj [(''type'', JStr ''ping''), (''timestamp'', JNum PInf)])
       [(''a'', \<lparr>ws = 1, startTime = 0, language = JStr ''en-US'', isActive = False\<rparr>)]
     = ([(''a'', \<lparr>ws = 1, startTime = 0, language = JStr ''en-US'', isActive = False\<rparr>)],
        [Send 1 (JObj [(''type'', JStr ''pong''), (''timestamp'', JInt 50), (''latency'', JNull)])],
        False)"
  by (simp add: handleWebSocketMessage_def Map_get_def pong_msg_def exact_int_def)

text \<open>
  Claim C7, as amended. Take a session in the store and a decoded message whose \<^verbatim>\<open>type\<close>
  is none of the four known ones. When the message is not \<^verbatim>\<open>null\<close> and its type has a
  string form \<open>txt\<close> (the type is missing, or a string, number, boolean or \<^verbatim>\<open>null\<close>, or an
  object or array in which no own \<^verbatim>\<open>toString\<close> property stands in the way), the handler
  attempts one reply on the session's channel, an \<^verbatim>\<open>error\<close> whose text is
  \<^verbatim>\<open>Unknown message type: \<close> followed by \<open>txt\<close>, which for a string type is the type
  itself; the store is left as it was, no channel is closed, and a \<^verbatim>\<open>ping\<close> that follows
  on the same session is answered with its \<^verbatim>\<open>pong\<close>. When the message is \<^verbatim>\<open>null\<close> or its
  type has no string form, the handler sends nothing and raises, the store is left as it
  was, and the connection's message listener answers with the \<^verbatim>\<open>error\<close>
  \<^verbatim>\<open>Invalid message format\<close> instead.
\<close>

theorem unknown_type_reply:
  assumes "Map_get st i = Some s"
    and "get_prop data ''type'' \<notin> {Some (JStr ''start_listening''), Some (JStr ''stop_listening''),
                                     Some (JStr ''subtitle_update''), Some (JStr ''ping'')}"
  shows "(data \<noteq> JNull \<and> js_string pf (get_prop data ''type'') = Some txt \<longrightarrow>
            handleWebSocketMessage pf throws t1 t2 i data st =
              (st, [Send (ws s) (unknown_type_msg txt)], throws (ws s)) \<and>
            get_prop (unknown_type_msg txt) ''type'' = Some (JStr ''error'') \<and>
            get_prop (unknown_type_msg txt) ''message'' = Some (JStr (''Unknown message type: '' @ txt)) \<and>
            (\<forall>ty. get_prop data ''type'' = Some (JStr ty) \<longrightarrow> txt = ty) \<and>
            handleWebSocketMessage pf throws' t3 t4 i (JObj [(''type'', JStr ''ping''), (''timestamp'', JNum x)])
                (fst (handleWebSocketMessage pf throws t1 t2 i data st)) =
              (st, [Send (ws s) (pong_msg t3 (js_minus pf (Fin (of_int t4)) x))], throws' (ws s))) \<and>
         (data = JNull \<or> js_string pf (get_prop data ''type'') = None \<longrightarrow>
            handleWebSocketMessage pf throws t1 t2 i data st = (st, [], True) \<and>
            on_message pf throws t1 t2 i sock (Some data) st =
              (st, [Log ParseError, Send sock invalid_format_msg], throws sock) \<and>
            get_prop invalid_format_msg ''message'' = Some (JStr ''Invalid message format''))"
proof -
  have a: "handleWebSocketMessage pf throws t1 t2 i data st =
              (st, [Send (ws s) (unknown_type_msg txt)], throws (ws s)) \<and>
            get_prop (unknown_type_msg txt) ''type'' = Some (JStr ''error'') \<and>
            get_prop (unknown_type_msg txt) ''message'' = Some (JStr (''Unknown message type: '' @ txt)) \<and>
            (\<forall>ty. get_prop data ''type'' = Some (JStr ty) \<longrightarrow> txt = ty) \<and>
            handleWebSocketMessage pf throws' t3 t4 i (JObj [(''type'', JStr ''ping''), (''timestamp'', JNum x)])
                (fst (handleWebSocketMessage pf throws t1 t2 i data st)) =
              (st, [Send (ws s) (pong_msg t3 (js_minus pf (Fin (of_int t4)) x))], throws' (ws s))"
    if nn: "data \<noteq> JNull" and js: "js_string pf (get_prop data ''type'') = Some txt"
  proof -
    have h: "handleWebSocketMessage pf throws t1 t2 i data st =
             (st, [Send (ws s) (unknown_type_msg txt)], throws (ws s))"
      using assms nn js by (simp add: handleWebSocketMessage_def)
    have m: "get_prop (unknown_type_msg txt) ''type'' = Some (JStr ''error'')"
      "get_prop (unknown_type_msg txt) ''message'' = Some (JStr (''Unknown message type: '' @ txt))"
      by (simp_all add: unknown_type_msg_def)
    have n: "\<forall>ty. get_prop data ''type'' = Some (JStr ty) \<longrightarrow> txt = ty"
      using js by (auto simp: js_string_def)
    have p: "handleWebSocketMessage pf throws' t3 t4 i
               (JObj [(''type'', JStr ''ping''), (''timestamp'', JNum x)]) st =
             (st, [Send (ws s) (pong_msg t3 (js_minus pf (Fin (of_int t4)) x))], throws' (ws s))"
      using assms(1) by (simp add: handleWebSocketMessage_def)
    from h m n p show ?thesis by simp
  qed
  have b: "handleWebSocketMessage pf throws t1 t2 i data st = (st, [], True) \<and>
            on_message pf throws t1 t2 i sock (Some data) st =
              (st, [Log ParseError, Send sock invalid_format_msg], throws sock) \<and>
            get_prop invalid_format_msg ''message'' = Some (JStr ''Invalid message format'')"
    if c: "data = JNull \<or> js_string pf (get_prop data ''type'') = None"
  proof -
    have h: "handleWebSocketMessage pf throws t1 t2 i data st = (st, [], True)"
    proof (cases "data = JNull")
      case True
      with assms(1) show ?thesis by (simp add: handleWebSocketMessage_def)
    next
      case False
      with c have "js_string pf (get_prop data ''type'') = None" by simp
      with assms False show ?thesis by (simp add: handleWebSocketMessage_def)
    qed
    then show ?thesis by (simp add: on_message_def invalid_format_msg_def)
  qed
  from a b show ?thesis by blast
qed

theorem unknown_type_reply_witness:
  "Map_get [(''a'', \<lparr>ws = 1, startTime = 0, language = JStr ''en-US'', isActive = False\<rparr>)] ''a''
     = Some \<lparr>ws = 1, startTime = 0, language = JStr ''en-US'', isActive = False\<rparr> \<and>
   JObj [(''type'', JStr ''foo'')] \<noteq> JNull \<and>
   get_prop (JObj [(''type'', JStr ''foo'')]) ''type''
     \<notin> {Some (JStr ''start_listening''), Some (JStr ''stop_listening''),
         Some (JStr ''subtitle_update''), Some (JStr ''ping'')} \<and>
   js_string unused_platform (get_prop (JObj [(''type'', JStr ''foo'')]) ''type'') = Some ''foo'' \<and>
   handleWebSocketMessage unused_platform (\<lambda>w. False) 50 51 ''a'' (JObj [(''type'', JStr ''foo'')])
       [(''a'', \<lparr>ws = 1, startTime = 0, language = JStr ''en-US'', isActive = False\<rparr>)]
     = ([(''a'', \<lparr>ws = 1, startTime = 0, language = JStr ''en-US'', isActive = False\<rparr>)],
        [Send 1 (JObj [(''type'', JStr ''error''), (''message'', JStr ''Unknown message type: foo'')])],
        False) \<and>
   handleWebSocketMessage unused_platform (\<lambda>w. False) 60 61 ''a''
       (JObj [(''type'', JStr ''ping''), (''timestamp'', JInt 40)])
       (fst (handleWebSocketMessage unused_platform (\<lambda>w. False) 50 51 ''a'' (JObj [(''type'', JStr ''foo'')])
               [(''a'', \<lparr>ws = 1, startTime = 0, language = JStr ''en-US'', isActive = False\<rparr>)]))
     = ([(''a'', \<lparr>ws = 1, startTime = 0, language = JStr ''en-US'', isActive = False\<rparr>)],
        [Send 1 (JObj [(''type'', JStr ''pong''), (''timestamp'', JInt 60), (''latency'', JInt 21)])],
        False) \<and>
   get_prop (JObj [(''type'', JArr [JObj [(''toString'', JBool True)]])]) ''type''
     \<notin> {Some (JStr ''start_listening''), Some (JStr ''stop_listening''),
         Some (JStr ''subtitle_update''), Some (JStr ''ping'')} \<and>
   js_string unused_platform
       (get_prop (JObj [(''type'', JArr [JObj [(''toString'', JBool True)]])]) ''type'') = None \<and>
   on_message unused_platform (\<lambda>w. False) 50 51 ''a'' 1
       (Some (JObj [(''type'', JArr [JObj [(''toString'', JBool True)]])]))
       [(''a'', \<lparr>ws = 1, startTime = 0, language = JStr ''en-US'', isActive = False\<rparr>)]
     = ([(''a'', \<lparr>ws = 1, startTime = 0, language = JStr ''en-US'', isActive = False\<rparr>)],
        [Log ParseError,
         Send 1 (JObj [(''type'', JStr ''error''), (''message'', JStr ''Invalid message format'')])],
        False)"
  using unknown_type_reply [where
      st = "[(''a'', \<lparr>ws = 1, startTime = 0, language = JStr ''en-US'', isActive = False\<rparr>)]"
      and i = "''a''"
      and s = "\<lparr>ws = 1, startTime = 0, language = JStr ''en-US'', isActive = False\<rparr>"
      and data = "JObj [(''type'', JStr ''foo'')]" and ?txt = "''foo''"
      and pf = unused_platform and throws = "\<lambda>w. False" and ?t1.0 = 50 and ?t2.0 = 51
      and ?throws' = "\<lambda>w. False" and ?t3.0 = 60 and ?t4.0 = 61 and x = "Fin 40" and sock = 1]
    unknown_type_reply [where
      st = "[(''a'', \<lparr>ws = 1, startTime = 0, language = JStr ''en-US'', isActive = False\<rparr>)]"
      and i = "''a''"
      and s = "\<lparr>ws = 1, startTime = 0, language = JStr ''en-US'', isActive = False\<rparr>"
      and data = "JObj [(''type'', JArr [JObj [(''toString'', JBool True)]])]"
      and pf = unused_platform and throws = "\<lambda>w. False" and ?t1.0 = 50 and ?t2.0 = 51 and sock = 1]
  by (simp add: Map_get_def js_string_def unknown_type_msg_def pong_msg_def
      handleWebSocketMessage_def on_message_def invalid_format_msg_def exact_int_def)

text \<open>
  The claim as first stated covers every decoded message whose type is none of the four.
  The frame \<^verbatim>\<open>{"type": {"toString": 0}}\<close> decodes to such a message: its type is an
  object. Building the reply's text converts that object to a string, which raises a
  TypeError, so the router sends nothing, and the \<^verbatim>\<open>catch\<close> of the connection's message
  listener answers \<^verbatim>\<open>Invalid message format\<close> instead. The frame \<^verbatim>\<open>null\<close> decodes as well
  and ends the same way, the read of its \<^verbatim>\<open>type\<close> raising.
\<close>

theorem unknown_type_unprintable_counterexample:
  "get_prop (JObj [(''type'', JObj [(''toString'', JInt 0)])]) ''type''
     \<notin> {Some (JStr ''start_listening''), Some (JStr ''stop_listening''),
         Some (JStr ''subtitle_update''), Some (JStr ''ping'')} \<and>
   handleWebSocketMessage unused_platform (\<lambda>w. False) 50 51 ''a''
       (JObj [(''type'', JObj [(''toString'', JInt 0)])])
       [(''a'', \<lparr>ws = 1, startTime = 0, language = JStr ''en-US'', isActive = False\<rparr>)]
     = ([(''a'', \<lparr>ws = 1, startTime = 0, language = JStr ''en-US'', isActive = False\<rparr>)], [], True) \<and>
   on_message unused_platform (\<lambda>w. False) 50 51 ''a'' 1
       (Some (JObj [(''type'', JObj [(''toString'', JInt 0)])]))
       [(''a'', \<lparr>ws = 1, startTime = 0, language = JStr ''en-US'', isActive = False\<rparr>)]
     = ([(''a'', \<lparr>ws = 1, startTime = 0, language = JStr ''en-US'', isActive = False\<rparr>)],
        [Log ParseError,
         Send 1 (JObj [(''type'', JStr ''error''), (''message'', JStr ''Invalid message format'')])],
        False) \<and>
   on_message unused_platform (\<lambda>w. False) 50 51 ''a'' 1 (Some JNull)
       [(''a'', \<lparr>ws = 1, startTime = 0, language = JStr ''en-US'', isActive = False\<rparr>)]
     = ([(''a'', \<lparr>ws = 1, startTime = 0, language = JStr ''en-US'', isActive = False\<rparr>)],
        [Log ParseError,
         Send 1 (JObj [(''type'', JStr ''error''), (''message'', JStr ''Invalid message format'')])],
        False)"
  by (simp add: on_message_def handleWebSocketMessage_def Map_get_def js_string_def
      invalid_format_msg_def)

text \<open>
  Claim C8. For a frame that \<^verbatim>\<open>JSON.parse\<close> rejects, the connection's message listener
  attempts one reply on the connection's channel, an \<^verbatim>\<open>error\<close> whose text is
  \<^verbatim>\<open>Invalid message format\<close>; it closes no channel and leaves the store, and with it every
  session, as it was.
\<close>

theorem malformed_frame_reply:
  "on_message pf throws t1 t2 i sock None st =
     (st, [Log ParseError, Send sock invalid_format_msg], throws sock) \<and>
   get_prop invalid_format_msg ''type'' = Some (JStr ''error'') \<and>
   get_prop invalid_format_msg ''message'' = Some (JStr ''Invalid message format'') \<and>
   sends (fst (snd (on_message pf throws t1 t2 i sock None st))) = [(sock, invalid_format_msg)] \<and>
   CloseChan w \<notin> set (fst (snd (on_message pf throws t1 t2 i sock None st))) \<and>
   Map_get (fst (on_message pf throws t1 t2 i sock None st)) = Map_get st"
  by (simp add: on_message_def invalid_format_msg_def)

theorem malformed_frame_reply_witness:
  "on_message unused_platform (\<lambda>w. False) 50 51 ''a'' 1 None
       [(''a'', \<lparr>ws = 1, startTime = 0, language = JStr ''en-US'', isActive = True\<rparr>)]
     = ([(''a'', \<lparr>ws = 1, startTime = 0, language = JStr ''en-US'', isActive = True\<rparr>)],
        [Log ParseError,
         Send 1 (JObj [(''type'', JStr ''error''), (''message'', JStr ''Invalid message format'')])],
        False)"
  using malformed_frame_reply [of unused_platform "\<lambda>w. False" 50 51 "''a''" 1
      "[(''a'', \<lparr>ws = 1, startTime = 0, language = JStr ''en-US'', isActive = True\<rparr>)]" 1]
  by (simp add: invalid_format_msg_def)

end
